theory Spec2Isabelle
  imports Main
begin

section \<open>The executor package (client/executor/exec.go)\<close>

text \<open>
  The package launches workloads as operating-system processes behind the interface
  \<^verbatim>\<open>Executor\<close>. It keeps an ordered registry of factories, selects the first
  implementation that reports itself available (\<^verbatim>\<open>Default\<close>) and carries one
  implementation of its own, \<^verbatim>\<open>UniversalExecutor\<close>, which works everywhere.

  The Go code mutates its receiver and calls into the Go standard library and the host.
  Here every method takes the executor's state and returns the new one, the registry is an
  argument, and the state of the host is a value \<open>'w\<close> that is passed along wherever the
  source calls something that can read or change it.
\<close>

subsection \<open>Errors and panics\<close>

text \<open>
  A Go \<^verbatim>\<open>error\<close> is a value; \<^verbatim>\<open>nil\<close> is \<open>None\<close> of \<open>error option\<close>. The package
  builds two errors of its own with \<^verbatim>\<open>fmt.Errorf\<close>; the others come from the standard
  library.
\<close>

datatype error =
    HostError string
    \<comment> \<open>an error value of the standard library or the host (\<^verbatim>\<open>os\<close>, \<^verbatim>\<open>os/exec\<close>)\<close>
  | ReopenError int error
    \<comment> \<open>\<^verbatim>\<open>fmt.Errorf("Failed to reopen pid %d: %s", pid, err)\<close>\<close>
  | NotStartedError
    \<comment> \<open>\<^verbatim>\<open>fmt.Errorf("Process has finished or was never started")\<close>\<close>
  | AlreadyStartedError
    \<comment> \<open>\<^verbatim>\<open>errors.New("exec: already started")\<close> of \<^verbatim>\<open>exec.Cmd.Start\<close>\<close>

text \<open>
  A call either returns or panics. The one panic the package can raise by itself is the
  run-time error of reading through a nil pointer.
\<close>

datatype 'a outcome = Returns 'a | Panics_nil_dereference

subsection \<open>The process handle\<close>

text \<open>
  \<^verbatim>\<open>os.Process\<close> holds the pid of the process it stands for (its other fields are private
  to the standard library). \<^verbatim>\<open>cmd\<close> embeds \<^verbatim>\<open>exec.Cmd\<close> and adds the resources and
  the identity asked for. Of \<^verbatim>\<open>exec.Cmd\<close> the model keeps the fields the package reads
  or writes: \<^verbatim>\<open>Path\<close>, \<^verbatim>\<open>Args\<close>, \<^verbatim>\<open>Process\<close> (a pointer, nil before the process
  exists) and the unexported \<^verbatim>\<open>lookPathErr\<close>, which \<^verbatim>\<open>Command\<close> names in a comment
  and cannot assign. \<^verbatim>\<open>structs.Resources\<close> is declared in another package; its type is
  the parameter \<open>'r\<close>, and \<open>0\<close> is its zero value.
\<close>

record Process =
  Pid :: int

record 'r cmd =
  Path :: string
  Args :: "string list"
  Process :: "Process option"
  lookPathErr :: "error option"
  Resources :: 'r
  RunAs :: string

text \<open>
  \<^verbatim>\<open>UniversalExecutor\<close> is a struct whose only member is the embedded \<^verbatim>\<open>cmd\<close>, so its
  state is a \<open>cmd\<close>. \<^verbatim>\<open>&UniversalExecutor{}\<close> is the zero value: empty strings, nil
  slice, nil pointer, nil error.
\<close>

definition UniversalExecutor_zero :: "('r::zero) cmd" where
  "UniversalExecutor_zero =
     \<lparr>Path = [], Args = [], Process = None, lookPathErr = None, Resources = 0, RunAs = []\<rparr>"

subsection \<open>The interface and the registry\<close>

text \<open>
  A value of the interface \<^verbatim>\<open>Executor\<close> is either the package's own
  \<^verbatim>\<open>UniversalExecutor\<close> or an implementation registered from elsewhere. Of the latter
  the package uses two methods only: \<^verbatim>\<open>Available()\<close> and \<^verbatim>\<open>Command()\<close>. So a
  foreign executor is its own state \<open>'x\<close>, what its \<^verbatim>\<open>Available()\<close> reports, and the
  \<open>cmd\<close> its \<^verbatim>\<open>Command()\<close> points to (the interface demands that it is never nil).
  For \<^verbatim>\<open>UniversalExecutor\<close> the two methods are \<^verbatim>\<open>return true\<close> and
  \<^verbatim>\<open>return &e.cmd\<close>.
\<close>

datatype ('r, 'x) Executor =
    UniversalExecutor "'r cmd"
  | PlatformExecutor 'x bool "'r cmd"

definition UniversalExecutor_Available :: "'r cmd \<Rightarrow> bool" where
  "UniversalExecutor_Available e = True"

definition UniversalExecutor_Command :: "'r cmd \<Rightarrow> 'r cmd" where
  "UniversalExecutor_Command e = e"

fun Available :: "('r, 'x) Executor \<Rightarrow> bool" where
  "Available (UniversalExecutor e) = UniversalExecutor_Available e"
| "Available (PlatformExecutor x a c) = a"

text \<open>
  \<^verbatim>\<open>ExecutorFactory\<close> is \<^verbatim>\<open>func() Executor\<close>. A factory is foreign code that may act on
  the host, so it takes the host's state and returns the executor with the new state.
  Factories are taken to return: one that panics, or returns a nil interface, is outside
  the model.
\<close>

type_synonym ('w, 'r, 'x) ExecutorFactory = "'w \<Rightarrow> ('r, 'x) Executor \<times> 'w"

text \<open>
  \<^verbatim>\<open>Register\<close> appends to the package variable \<^verbatim>\<open>executors\<close> under a mutex. The
  variable is an argument here, and the nil slice and the empty slice are both \<open>[]\<close>.
\<close>

definition Register ::
  "('w, 'r, 'x) ExecutorFactory list \<Rightarrow> ('w, 'r, 'x) ExecutorFactory \<Rightarrow>
   ('w, 'r, 'x) ExecutorFactory list" where
  "Register executors executor = executors @ [executor]"

text \<open>
  \<^verbatim>\<open>Default\<close>: the loop over \<^verbatim>\<open>executors\<close> calls each factory, asks the instance
  whether it is available and returns the first that is; after the loop it returns a new
  \<^verbatim>\<open>UniversalExecutor\<close>.
\<close>

fun Default ::
  "('w, 'r::zero, 'x) ExecutorFactory list \<Rightarrow> 'w \<Rightarrow> ('r, 'x) Executor \<times> 'w" where
  "Default [] w = (UniversalExecutor UniversalExecutor_zero, w)"
| "Default (factory # executors) w =
     (case factory w of
        (executor, w') \<Rightarrow>
          if Available executor then (executor, w') else Default executors w')"

text \<open>
  \<^verbatim>\<open>Command()\<close> returns a pointer to the executor's \<open>cmd\<close>, through which the caller
  assigns fields. \<open>Executor_Command\<close> reads the \<open>cmd\<close> and \<open>Executor_store\<close> writes
  it back, which together stand for the assignments through the pointer.
\<close>

fun Executor_Command :: "('r, 'x) Executor \<Rightarrow> 'r cmd" where
  "Executor_Command (UniversalExecutor e) = UniversalExecutor_Command e"
| "Executor_Command (PlatformExecutor x a c) = c"

fun Executor_store :: "('r, 'x) Executor \<Rightarrow> 'r cmd \<Rightarrow> ('r, 'x) Executor" where
  "Executor_store (UniversalExecutor e) c = UniversalExecutor c"
| "Executor_store (PlatformExecutor x a c') c = PlatformExecutor x a c"

subsection \<open>The host and the standard library\<close>

text \<open>
  The package calls \<^verbatim>\<open>os.FindProcess\<close>, \<^verbatim>\<open>os.Process.Kill\<close>,
  \<^verbatim>\<open>exec.LookPath\<close>, \<^verbatim>\<open>filepath.Base\<close> and \<^verbatim>\<open>exec.Cmd.Start\<close>. What they
  answer depends on the machine, so the machine is a parameter: a record of what the host
  does in a state \<open>'w\<close>.
  \<^item> \<open>host_running w pid\<close>: a live process has this pid (used in statements only; the
    code never asks);
  \<^item> \<open>host_lookup w pid\<close>: the error \<^verbatim>\<open>os.FindProcess(pid)\<close> reports, if any;
  \<^item> \<open>host_kill w pid\<close>: what \<^verbatim>\<open>Kill\<close> on the handle of \<open>pid\<close> reports, and the
    state after it;
  \<^item> \<open>host_LookPath w name\<close>: \<^verbatim>\<open>exec.LookPath(name)\<close>, a path or an error;
  \<^item> \<open>host_StartProcess w path argv\<close>: \<^verbatim>\<open>os.StartProcess\<close>, the new pid or an
    error, and the state after it.
\<close>

record 'w host =
  host_running :: "'w \<Rightarrow> int \<Rightarrow> bool"
  host_lookup :: "'w \<Rightarrow> int \<Rightarrow> error option"
  host_kill :: "'w \<Rightarrow> int \<Rightarrow> error option \<times> 'w"
  host_LookPath :: "'w \<Rightarrow> string \<Rightarrow> error + string"
  host_StartProcess :: "'w \<Rightarrow> string \<Rightarrow> string list \<Rightarrow> (error + int) \<times> 'w"

text \<open>
  \<^verbatim>\<open>os.FindProcess(pid)\<close> returns an error, or a handle that carries the pid it was
  asked for.
\<close>

definition os_FindProcess :: "'w host \<Rightarrow> int \<Rightarrow> 'w \<Rightarrow> error + Process" where
  "os_FindProcess os pid w =
     (case host_lookup os w pid of
        Some err \<Rightarrow> Inl err
      | None \<Rightarrow> Inr \<lparr>Pid = pid\<rparr>)"

text \<open>
  \<^verbatim>\<open>p.Kill()\<close> on \<^verbatim>\<open>p *os.Process\<close>. Go enters a method on a nil pointer; \<^verbatim>\<open>Kill\<close>
  then reads the fields of its receiver, which on nil is the run-time panic.
\<close>

definition Process_Kill ::
  "'w host \<Rightarrow> Process option \<Rightarrow> 'w \<Rightarrow> (error option \<times> 'w) outcome" where
  "Process_Kill os p w =
     (case p of
        None \<Rightarrow> Panics_nil_dereference
      | Some process \<Rightarrow> Returns (host_kill os w (Pid process)))"

text \<open>
  \<^verbatim>\<open>filepath.Base\<close> on a Unix build (the separator is \<^verbatim>\<open>/\<close>, no volume names): the
  empty path gives \<^verbatim>\<open>.\<close>; trailing separators are cut; what follows the last separator
  is kept; when nothing is left, the path was separators only and the result is one
  separator.
\<close>

definition IsPathSeparator :: "char \<Rightarrow> bool" where
  "IsPathSeparator c = (c = CHR ''/'')"

definition strip_trailing_separators :: "string \<Rightarrow> string" where
  "strip_trailing_separators path = rev (dropWhile IsPathSeparator (rev path))"

definition last_element :: "string \<Rightarrow> string" where
  "last_element path = rev (takeWhile (\<lambda>c. \<not> IsPathSeparator c) (rev path))"

definition filepath_Base :: "string \<Rightarrow> string" where
  "filepath_Base path =
     (if path = [] then ''.''
      else if last_element (strip_trailing_separators path) = [] then ''/''
      else last_element (strip_trailing_separators path))"

text \<open>
  \<^verbatim>\<open>exec.Cmd.Start\<close>: a recorded lookup error is returned first; a command that
  already has a process is refused; otherwise the host starts \<^verbatim>\<open>c.Path\<close> with
  \<^verbatim>\<open>c.argv()\<close> (the arguments, or the path alone when there are none) and the new
  process is stored.
\<close>

definition Cmd_argv :: "'r cmd \<Rightarrow> string list" where
  "Cmd_argv c = (if Args c \<noteq> [] then Args c else [Path c])"

definition Cmd_Start :: "'w host \<Rightarrow> 'r cmd \<Rightarrow> 'w \<Rightarrow> error option \<times> 'r cmd \<times> 'w" where
  "Cmd_Start os c w =
     (case lookPathErr c of
        Some err \<Rightarrow> (Some err, c, w)
      | None \<Rightarrow>
          (case Process c of
             Some p \<Rightarrow> (Some AlreadyStartedError, c, w)
           | None \<Rightarrow>
               (case host_StartProcess os w (Path c) (Cmd_argv c) of
                  (Inl err, w') \<Rightarrow> (Some err, c, w')
                | (Inr pid, w') \<Rightarrow> (None, c\<lparr>Process := Some \<lparr>Pid = pid\<rparr>\<rparr>, w'))))"

subsection \<open>Command\<close>

text \<open>
  \<^verbatim>\<open>Command(name, arg...)\<close> takes the default executor, sets \<^verbatim>\<open>Path\<close> to the name
  and \<^verbatim>\<open>Args\<close> to the name followed by the arguments, and, when
  \<^verbatim>\<open>filepath.Base(name) == name\<close>, looks the name up: on success \<^verbatim>\<open>Path\<close> becomes the
  path found, on failure the branch is empty. It returns the executor and nothing else.
\<close>

definition Command ::
  "'w host \<Rightarrow> ('w, 'r::zero, 'x) ExecutorFactory list \<Rightarrow> string \<Rightarrow> string list \<Rightarrow> 'w \<Rightarrow>
   ('r, 'x) Executor \<times> 'w" where
  "Command os executors name arg w =
     (case Default executors w of
        (executor, w') \<Rightarrow>
          let cmd = (Executor_Command executor)\<lparr>Path := name, Args := [name] @ arg\<rparr>;
              cmd = (if filepath_Base name = name
                     then (case host_LookPath os w' name of
                             Inl err \<Rightarrow> cmd
                           | Inr lp \<Rightarrow> cmd\<lparr>Path := lp\<rparr>)
                     else cmd)
          in (Executor_store executor cmd, w'))"

subsection \<open>UniversalExecutor\<close>

text \<open>
  The other methods of \<^verbatim>\<open>*UniversalExecutor\<close>. Each takes the receiver's state
  \<open>e\<close> and returns, with its result, the state after the call. \<^verbatim>\<open>Wait\<close> blocks
  until the process exits and is not part of the model.
\<close>

definition UniversalExecutor_Limit :: "'r cmd \<Rightarrow> 'r option \<Rightarrow> error option \<times> 'r cmd" where
  "UniversalExecutor_Limit e resources = (None, e)"

definition UniversalExecutor_RunAs :: "'r cmd \<Rightarrow> string \<Rightarrow> error option \<times> 'r cmd" where
  "UniversalExecutor_RunAs e userid = (None, e)"

definition UniversalExecutor_Start ::
  "'w host \<Rightarrow> 'r cmd \<Rightarrow> 'w \<Rightarrow> error option \<times> 'r cmd \<times> 'w" where
  "UniversalExecutor_Start os e w = Cmd_Start os e w"

definition UniversalExecutor_Open ::
  "'w host \<Rightarrow> 'r cmd \<Rightarrow> int \<Rightarrow> 'w \<Rightarrow> error option \<times> 'r cmd" where
  "UniversalExecutor_Open os e pid w =
     (case os_FindProcess os pid w of
        Inl err \<Rightarrow> (Some (ReopenError pid err), e)
      | Inr process \<Rightarrow> (None, e\<lparr>Process := Some process\<rparr>))"

definition UniversalExecutor_Pid :: "'r cmd \<Rightarrow> int \<times> error option" where
  "UniversalExecutor_Pid e =
     (case Process e of
        Some process \<Rightarrow> (Pid process, None)
      | None \<Rightarrow> (0, Some NotStartedError))"

definition UniversalExecutor_ForceStop ::
  "'w host \<Rightarrow> 'r cmd \<Rightarrow> 'w \<Rightarrow> (error option \<times> 'r cmd \<times> 'w) outcome" where
  "UniversalExecutor_ForceStop os e w =
     (case Process_Kill os (Process e) w of
        Panics_nil_dereference \<Rightarrow> Panics_nil_dereference
      | Returns (err, w') \<Rightarrow> Returns (err, e, w'))"

definition UniversalExecutor_Shutdown ::
  "'w host \<Rightarrow> 'r cmd \<Rightarrow> 'w \<Rightarrow> (error option \<times> 'r cmd \<times> 'w) outcome" where
  "UniversalExecutor_Shutdown os e w = UniversalExecutor_ForceStop os e w"

subsection \<open>Reference points for the statements\<close>

text \<open>
  \<open>invoke_all\<close> calls every factory of a list, in the order of the list, each in the
  state the one before it left, and collects the instances. It says what "the factories
  invoked in registration order" produce, against which \<open>Default\<close> is compared.
\<close>

fun invoke_all ::
  "('w, 'r, 'x) ExecutorFactory list \<Rightarrow> 'w \<Rightarrow> ('r, 'x) Executor list \<times> 'w" where
  "invoke_all [] w = ([], w)"
| "invoke_all (factory # executors) w =
     (case factory w of
        (executor, w') \<Rightarrow>
          (case invoke_all executors w' of
             (instances, w'') \<Rightarrow> (executor # instances, w'')))"

text \<open>
  \<open>never_started os e\<close>: \<open>e\<close> is a state of a \<^verbatim>\<open>UniversalExecutor\<close> that was newly
  constructed and on which, since then, fields were set through \<^verbatim>\<open>Command()\<close> as
  \<^verbatim>\<open>Command\<close> does, \<^verbatim>\<open>Limit\<close> and \<^verbatim>\<open>RunAs\<close> were called, and every \<^verbatim>\<open>Open\<close> and
  \<^verbatim>\<open>Start\<close> returned an error.
\<close>

inductive never_started :: "'w host \<Rightarrow> ('r::zero) cmd \<Rightarrow> bool" for os :: "'w host" where
  fresh: "never_started os UniversalExecutor_zero"
| configured: "never_started os e \<Longrightarrow> never_started os (e\<lparr>Path := path, Args := args\<rparr>)"
| limited: "never_started os e \<Longrightarrow> UniversalExecutor_Limit e resources = (err, e') \<Longrightarrow>
    never_started os e'"
| run_as: "never_started os e \<Longrightarrow> UniversalExecutor_RunAs e userid = (err, e') \<Longrightarrow>
    never_started os e'"
| open_failed: "never_started os e \<Longrightarrow>
    UniversalExecutor_Open os e pid w = (Some err, e') \<Longrightarrow> never_started os e'"
| start_failed: "never_started os e \<Longrightarrow>
    UniversalExecutor_Start os e w = (Some err, e', w') \<Longrightarrow> never_started os e'"

text \<open>
  Hosts for the examples; the state of each is the list of the pids of its live
  processes. \<open>unix_host\<close> looks processes up as Go does on Unix, where
  \<^verbatim>\<open>os.FindProcess\<close> always succeeds and returns a handle for the pid, whether or not
  the process exists. \<open>checking_host\<close> differs in the lookup only: it reports an error
  for a pid that no live process has, as a host does that must open the process to make
  the handle.
\<close>

definition unix_host :: "int list host" where
  "unix_host =
     \<lparr>host_running = (\<lambda>w pid. pid \<in> set w),
      host_lookup = (\<lambda>w pid. None),
      host_kill = (\<lambda>w pid.
        if pid \<in> set w then (None, removeAll pid w)
        else (Some (HostError ''os: process already finished''), w)),
      host_LookPath = (\<lambda>w name.
        if name = ''sleep'' then Inr ''/bin/sleep''
        else Inl (HostError ''executable file not found in $PATH'')),
      host_StartProcess = (\<lambda>w path argv.
        if path = ''/bin/sleep'' then (Inr 100, 100 # w)
        else (Inl (HostError ''no such file or directory''), w))\<rparr>"

definition checking_host :: "int list host" where
  "checking_host =
     unix_host\<lparr>host_lookup := (\<lambda>w pid.
        if pid \<in> set w then None
        else Some (HostError ''OpenProcess: The parameter is incorrect.''))\<rparr>"

text \<open>
  \<open>cwd_host\<close> is the Unix host with an executable \<^verbatim>\<open>run-task\<close> in the working
  directory and not on the search path: \<^verbatim>\<open>exec.LookPath\<close> does not find it, and
  \<^verbatim>\<open>os.StartProcess\<close>, which takes a path without separator as relative to the
  working directory, starts it.
\<close>

definition cwd_host :: "int list host" where
  "cwd_host =
     unix_host\<lparr>host_StartProcess := (\<lambda>w path argv.
        if path = ''/bin/sleep'' \<or> path = ''run-task'' then (Inr 100, 100 # w)
        else (Inl (HostError ''no such file or directory''), w))\<rparr>"

text \<open>
  A factory for the examples: it makes a foreign executor with the given name and
  availability and leaves its name in the state, a log of the factories called.
\<close>

definition probe_factory ::
  "string \<Rightarrow> bool \<Rightarrow> (string list, nat, string) ExecutorFactory" where
  "probe_factory tag a w = (PlatformExecutor tag a UniversalExecutor_zero, w @ [tag])"

section \<open>Selection\<close>

text \<open>Registering factories one after the other gives the list in that order.\<close>

lemma Register_appends: "foldl Register executors fs = executors @ fs"
  by (induction fs arbitrary: executors) (simp_all add: Register_def)

text \<open>
  The loop of \<open>Default\<close> passes over factories whose instances are unavailable: it calls
  them in order and goes on with the rest in the state they left.
\<close>

lemma Default_skips_unavailable:
  "invoke_all pre w = (instances, w1) \<Longrightarrow> list_all (\<lambda>e. \<not> Available e) instances \<Longrightarrow>
   Default (pre @ post) w = Default post w1"
proof (induction pre arbitrary: w instances)
  case Nil
  then show ?case by simp
next
  case (Cons factory pre)
  obtain executor w' where f: "factory w = (executor, w')"
    by (cases "factory w")
  obtain rest w'' where r: "invoke_all pre w' = (rest, w'')"
    by (cases "invoke_all pre w'")
  from Cons.prems(1) f r have i: "instances = executor # rest" and w: "w'' = w1"
    by simp_all
  from Cons.prems(2) i have u: "\<not> Available executor"
    and a: "list_all (\<lambda>e. \<not> Available e) rest"
    by simp_all
  from r w have "invoke_all pre w' = (rest, w1)"
    by simp
  from Cons.IH [OF this a] f u show ?case
    by simp
qed

text \<open>Whatever the registry, the executor selected reports itself available.\<close>

lemma Default_Available: "Available (fst (Default executors w))"
  by (induction executors arbitrary: w)
    (auto simp: UniversalExecutor_Available_def split: prod.splits)

text \<open>
  C1. Let the registry be \<open>pre @ factory # post\<close>. If the factories of \<open>pre\<close>, called in
  registration order, produce instances that all report \<^verbatim>\<open>Available()\<close> false, and
  \<open>factory\<close>, called next, produces an instance that reports true, then \<open>Default\<close>
  returns that instance. The state returned is the one \<open>factory\<close> left: the factories
  were called in registration order up to it, and none of \<open>post\<close> was called.
\<close>

theorem Default_first_available:
  assumes "invoke_all pre w = (instances, w1)"
    and "list_all (\<lambda>e. \<not> Available e) instances"
    and "factory w1 = (executor, w2)"
    and "Available executor"
  shows "Default (pre @ factory # post) w = (executor, w2)"
  using Default_skips_unavailable [OF assms(1,2), of "factory # post"] assms(3,4)
  by simp

theorem Default_first_available_witness:
  "invoke_all [probe_factory ''cgroups'' False] [] =
     ([PlatformExecutor ''cgroups'' False UniversalExecutor_zero], [''cgroups'']) \<and>
   list_all (\<lambda>e. \<not> Available e)
     [PlatformExecutor ''cgroups'' False (UniversalExecutor_zero :: nat cmd)] \<and>
   probe_factory ''jail'' True [''cgroups''] =
     (PlatformExecutor ''jail'' True UniversalExecutor_zero, [''cgroups'', ''jail'']) \<and>
   Available (PlatformExecutor ''jail'' True (UniversalExecutor_zero :: nat cmd)) \<and>
   Default ([probe_factory ''cgroups'' False] @ probe_factory ''jail'' True #
            [probe_factory ''chroot'' True]) [] =
     (PlatformExecutor ''jail'' True UniversalExecutor_zero, [''cgroups'', ''jail''])"
proof -
  have a: "invoke_all [probe_factory ''cgroups'' False] [] =
     ([PlatformExecutor ''cgroups'' False UniversalExecutor_zero], [''cgroups''])"
    by (simp add: probe_factory_def)
  have b: "list_all (\<lambda>e. \<not> Available e)
     [PlatformExecutor ''cgroups'' False (UniversalExecutor_zero :: nat cmd)]"
    by simp
  have c: "probe_factory ''jail'' True [''cgroups''] =
     (PlatformExecutor ''jail'' True UniversalExecutor_zero, [''cgroups'', ''jail''])"
    by (simp add: probe_factory_def)
  have d: "Available (PlatformExecutor ''jail'' True (UniversalExecutor_zero :: nat cmd))"
    by simp
  from a b c d
    Default_first_available [where factory = "probe_factory ''jail'' True"
      and post = "[probe_factory ''chroot'' True]", OF a b c d]
  show ?thesis
    by blast
qed

text \<open>
  C2. If the factories of the registry, called in registration order, produce instances
  that all report \<^verbatim>\<open>Available()\<close> false (the empty registry is the case of no
  instance), \<open>Default\<close> returns a new \<^verbatim>\<open>UniversalExecutor\<close>, whose own
  \<^verbatim>\<open>Available()\<close> is true. \<open>Default\<close> is a total function into the executors, so it
  returns one for every registry.
\<close>

theorem Default_fallback:
  assumes "invoke_all executors w = (instances, w1)"
    and "list_all (\<lambda>e. \<not> Available e) instances"
  shows "Default executors w = (UniversalExecutor UniversalExecutor_zero, w1) \<and>
         UniversalExecutor_Available UniversalExecutor_zero \<and>
         Available (fst (Default executors w))"
  using Default_skips_unavailable [OF assms, of "[]"]
  by (simp add: UniversalExecutor_Available_def)

theorem Default_fallback_witness:
  "Default [] ([] :: string list) =
     (UniversalExecutor (UniversalExecutor_zero :: nat cmd) :: (nat, string) Executor, []) \<and>
   Default [probe_factory ''cgroups'' False, probe_factory ''jail'' False] [] =
     (UniversalExecutor UniversalExecutor_zero, [''cgroups'', ''jail'']) \<and>
   Available (fst (Default [probe_factory ''cgroups'' False, probe_factory ''jail'' False] []))"
proof -
  have a: "invoke_all [] ([] :: string list) = ([] :: (nat, string) Executor list, [])"
    by simp
  have b: "invoke_all [probe_factory ''cgroups'' False, probe_factory ''jail'' False] [] =
     ([PlatformExecutor ''cgroups'' False UniversalExecutor_zero,
       PlatformExecutor ''jail'' False UniversalExecutor_zero], [''cgroups'', ''jail''])"
    by (simp add: probe_factory_def)
  have c: "list_all (\<lambda>e. \<not> Available e)
     [PlatformExecutor ''cgroups'' False (UniversalExecutor_zero :: nat cmd),
      PlatformExecutor ''jail'' False UniversalExecutor_zero]"
    by simp
  have d: "list_all (\<lambda>e. \<not> Available e) ([] :: (nat, string) Executor list)"
    by simp
  from Default_fallback [OF a d] Default_fallback [OF b c] show ?thesis
    by blast
qed

section \<open>The fallback executor\<close>

subsection \<open>Pid before the process exists\<close>

text \<open>
  The process of a \<^verbatim>\<open>UniversalExecutor\<close> is assigned in two places only: by \<^verbatim>\<open>Open\<close>
  when the lookup succeeds and by \<^verbatim>\<open>Start\<close> when the host starts the process. Until
  one of them succeeds the pointer is nil.
\<close>

lemma never_started_no_process: "never_started os e \<Longrightarrow> Process e = None"
proof (induction rule: never_started.induct)
  case fresh
  show ?case by (simp add: UniversalExecutor_zero_def)
next
  case (configured e args path)
  then show ?case by simp
next
  case (limited e resources err e')
  then show ?case by (simp add: UniversalExecutor_Limit_def)
next
  case (run_as e userid err e')
  then show ?case by (auto simp add: UniversalExecutor_RunAs_def)
next
  case (open_failed e pid w err e')
  then show ?case
    by (auto simp: UniversalExecutor_Open_def split: sum.splits)
next
  case (start_failed e w err e' w')
  then show ?case
    by (auto simp: UniversalExecutor_Start_def Cmd_Start_def
        split: option.splits sum.splits prod.splits)
qed

text \<open>
  C3. On a newly constructed \<^verbatim>\<open>UniversalExecutor\<close> on which neither \<^verbatim>\<open>Start\<close> nor
  \<^verbatim>\<open>Open\<close> has succeeded, \<^verbatim>\<open>Pid()\<close> returns 0 and the error "Process has finished or
  was never started".
\<close>

theorem Pid_never_started:
  "never_started os e \<Longrightarrow> UniversalExecutor_Pid e = (0, Some NotStartedError)"
  by (simp add: UniversalExecutor_Pid_def never_started_no_process)

theorem Pid_never_started_witness:
  "never_started unix_host (UniversalExecutor_zero :: nat cmd) \<and>
   UniversalExecutor_Pid (UniversalExecutor_zero :: nat cmd) = (0, Some NotStartedError)"
proof -
  have f: "never_started unix_host (UniversalExecutor_zero :: nat cmd)"
    by (rule never_started.fresh)
  from f Pid_never_started [OF f] show ?thesis
    by simp
qed

subsection \<open>Open\<close>

text \<open>When the lookup reports no error, \<^verbatim>\<open>Open\<close> stores the handle and returns nil.\<close>

lemma Open_lookup_ok:
  "host_lookup os w pid = None \<Longrightarrow>
   UniversalExecutor_Open os e pid w = (None, e\<lparr>Process := Some \<lparr>Pid = pid\<rparr>\<rparr>)"
  by (simp add: UniversalExecutor_Open_def os_FindProcess_def)

text \<open>
  C4, as amended. For every pid for which the lookup of the host, \<^verbatim>\<open>os.FindProcess\<close>,
  reports an error, \<^verbatim>\<open>Open(pid)\<close> returns the error "Failed to reopen pid" around it
  and leaves the executor as it was.
\<close>

theorem Open_lookup_error:
  "host_lookup os w pid = Some err \<Longrightarrow>
   UniversalExecutor_Open os e pid w = (Some (ReopenError pid err), e)"
  by (simp add: UniversalExecutor_Open_def os_FindProcess_def)

theorem Open_lookup_error_witness:
  "host_lookup checking_host [7] 4242 =
     Some (HostError ''OpenProcess: The parameter is incorrect.'') \<and>
   UniversalExecutor_Open checking_host (UniversalExecutor_zero :: nat cmd) 4242 [7] =
     (Some (ReopenError 4242 (HostError ''OpenProcess: The parameter is incorrect.'')),
      UniversalExecutor_zero)"
proof -
  have h: "host_lookup checking_host [7] 4242 =
      Some (HostError ''OpenProcess: The parameter is incorrect.'')"
    by (simp add: checking_host_def)
  from h Open_lookup_error [OF h] show ?thesis
    by simp
qed

text \<open>
  C4, as stated, fails where the lookup does not test for the process. On the Unix host
  no process is alive in the state \<open>[]\<close>, and \<^verbatim>\<open>Open(4242)\<close> returns nil and stores a
  handle for pid 4242: \<^verbatim>\<open>Open\<close> itself makes no test of its own.
\<close>

theorem Open_stale_pid_succeeds:
  "\<not> host_running unix_host [] 4242 \<and>
   UniversalExecutor_Open unix_host (UniversalExecutor_zero :: nat cmd) 4242 [] =
     (None, UniversalExecutor_zero\<lparr>Process := Some \<lparr>Pid = 4242\<rparr>\<rparr>)"
  by (simp add: UniversalExecutor_Open_def os_FindProcess_def unix_host_def)

text \<open>
  C8. When \<^verbatim>\<open>Open(pid)\<close> has returned nil, \<^verbatim>\<open>Pid()\<close> on the executor it left returns
  that pid and no error.
\<close>

theorem Open_then_Pid:
  "UniversalExecutor_Open os e pid w = (None, e') \<Longrightarrow>
   UniversalExecutor_Pid e' = (pid, None)"
  by (auto simp: UniversalExecutor_Open_def os_FindProcess_def UniversalExecutor_Pid_def
      split: option.splits)

theorem Open_then_Pid_witness:
  "host_running unix_host [7] 7 \<and>
   UniversalExecutor_Open unix_host (UniversalExecutor_zero :: nat cmd) 7 [7] =
     (None, UniversalExecutor_zero\<lparr>Process := Some \<lparr>Pid = 7\<rparr>\<rparr>) \<and>
   UniversalExecutor_Pid ((UniversalExecutor_zero :: nat cmd)\<lparr>Process := Some \<lparr>Pid = 7\<rparr>\<rparr>) =
     (7, None)"
proof -
  have o: "UniversalExecutor_Open unix_host (UniversalExecutor_zero :: nat cmd) 7 [7] =
     (None, UniversalExecutor_zero\<lparr>Process := Some \<lparr>Pid = 7\<rparr>\<rparr>)"
    by (simp add: UniversalExecutor_Open_def os_FindProcess_def unix_host_def)
  have r: "host_running unix_host [7] 7"
    by (simp add: unix_host_def)
  from r o Open_then_Pid [OF o] show ?thesis
    by simp
qed

subsection \<open>Shutdown and ForceStop\<close>

text \<open>On an executor that has a process, \<^verbatim>\<open>ForceStop\<close> is the kill of the host.\<close>

lemma ForceStop_started:
  "Process e = Some p \<Longrightarrow>
   UniversalExecutor_ForceStop os e w =
     Returns (fst (host_kill os w (Pid p)), e, snd (host_kill os w (Pid p)))"
  by (simp add: UniversalExecutor_ForceStop_def Process_Kill_def split: prod.splits)

text \<open>
  C5. \<^verbatim>\<open>Shutdown()\<close> is \<^verbatim>\<open>ForceStop()\<close>: on every host, executor and state of the
  host the two give the same outcome, that is the same error, the same executor and the
  same state of the host after the call, or both the same panic.
\<close>

theorem Shutdown_is_ForceStop:
  "UniversalExecutor_Shutdown os e w = UniversalExecutor_ForceStop os e w"
  by (simp add: UniversalExecutor_Shutdown_def)

theorem Shutdown_is_ForceStop_witness:
  "UniversalExecutor_Shutdown unix_host
     ((UniversalExecutor_zero :: nat cmd)\<lparr>Process := Some \<lparr>Pid = 7\<rparr>\<rparr>) [7, 8] =
     Returns (None, UniversalExecutor_zero\<lparr>Process := Some \<lparr>Pid = 7\<rparr>\<rparr>, [8])"
proof -
  have "UniversalExecutor_ForceStop unix_host
     ((UniversalExecutor_zero :: nat cmd)\<lparr>Process := Some \<lparr>Pid = 7\<rparr>\<rparr>) [7, 8] =
     Returns (None, UniversalExecutor_zero\<lparr>Process := Some \<lparr>Pid = 7\<rparr>\<rparr>, [8])"
    by (simp add: ForceStop_started unix_host_def)
  then show ?thesis
    by (simp only: Shutdown_is_ForceStop)
qed

text \<open>
  On an executor that has no process yet, \<^verbatim>\<open>ForceStop\<close> and \<^verbatim>\<open>Shutdown\<close> do not
  return: the call of \<^verbatim>\<open>Kill\<close> goes to the nil pointer.
\<close>

lemma ForceStop_never_started:
  "never_started os e \<Longrightarrow>
   UniversalExecutor_ForceStop os e w = Panics_nil_dereference \<and>
   UniversalExecutor_Shutdown os e w = Panics_nil_dereference"
  by (simp add: UniversalExecutor_Shutdown_def UniversalExecutor_ForceStop_def Process_Kill_def
      never_started_no_process)

text \<open>
  C6 says that no operation panics in any state. \<^verbatim>\<open>Pid\<close> tests the process for nil and
  returns an error; \<^verbatim>\<open>ForceStop\<close> does not test, and neither does \<^verbatim>\<open>Shutdown\<close>,
  which calls it. On a newly constructed executor \<^verbatim>\<open>Pid()\<close> returns the error, while
  \<^verbatim>\<open>ForceStop()\<close> and \<^verbatim>\<open>Shutdown()\<close> call \<^verbatim>\<open>Kill\<close> on the nil process and panic.
\<close>

theorem ForceStop_before_Start_panics:
  "UniversalExecutor_Pid (UniversalExecutor_zero :: nat cmd) = (0, Some NotStartedError) \<and>
   UniversalExecutor_ForceStop unix_host (UniversalExecutor_zero :: nat cmd) [] =
     Panics_nil_dereference \<and>
   UniversalExecutor_Shutdown unix_host (UniversalExecutor_zero :: nat cmd) [] =
     Panics_nil_dereference"
  by (simp add: UniversalExecutor_Shutdown_def UniversalExecutor_ForceStop_def Process_Kill_def
      UniversalExecutor_Pid_def UniversalExecutor_zero_def)

subsection \<open>Limit and RunAs\<close>

text \<open>
  C7. \<^verbatim>\<open>Limit\<close> and \<^verbatim>\<open>RunAs\<close> return nil for every argument and leave the executor,
  with its path, arguments, process, resources and identity, as it was.
\<close>

theorem Limit_RunAs_noop:
  "UniversalExecutor_Limit e resources = (None, e) \<and>
   UniversalExecutor_RunAs e userid = (None, e)"
  by (simp add: UniversalExecutor_Limit_def UniversalExecutor_RunAs_def)

section \<open>Spawn requests\<close>

text \<open>
  The test \<^verbatim>\<open>filepath.Base(name) == name\<close> of \<^verbatim>\<open>Command\<close> holds for the names that
  have no separator and are not empty, and for the single separator \<^verbatim>\<open>/\<close>, which is
  its own base.
\<close>

lemma filepath_Base_fixed:
  "filepath_Base name = name \<longleftrightarrow> name \<noteq> [] \<and> (name = ''/'' \<or> CHR ''/'' \<notin> set name)"
proof
  assume eq: "filepath_Base name = name"
  then have ne: "name \<noteq> []"
    by (auto simp: filepath_Base_def)
  show "name \<noteq> [] \<and> (name = ''/'' \<or> CHR ''/'' \<notin> set name)"
  proof (cases "last_element (strip_trailing_separators name) = []")
    case True
    with eq ne show ?thesis
      by (simp add: filepath_Base_def)
  next
    case False
    with eq ne have "name = last_element (strip_trailing_separators name)"
      by (simp add: filepath_Base_def)
    then have "set name \<subseteq> {c. \<not> IsPathSeparator c}"
      unfolding last_element_def
      by (metis (mono_tags, lifting) mem_Collect_eq set_rev set_takeWhileD subsetI)
    with ne show ?thesis
      by (auto simp: IsPathSeparator_def)
  qed
next
  assume "name \<noteq> [] \<and> (name = ''/'' \<or> CHR ''/'' \<notin> set name)"
  then have ne: "name \<noteq> []" and d: "name = ''/'' \<or> CHR ''/'' \<notin> set name"
    by simp_all
  from d show "filepath_Base name = name"
  proof
    assume "name = ''/''"
    then show ?thesis
      by (simp add: filepath_Base_def strip_trailing_separators_def last_element_def
          IsPathSeparator_def)
  next
    assume n: "CHR ''/'' \<notin> set name"
    then have "dropWhile IsPathSeparator (rev name) = rev name"
      by (induction name rule: rev_induct) (auto simp: IsPathSeparator_def)
    then have s: "strip_trailing_separators name = name"
      by (simp add: strip_trailing_separators_def)
    from n have t: "takeWhile (\<lambda>c. \<not> IsPathSeparator c) (rev name) = rev name"
      by (auto simp: IsPathSeparator_def)
    have "last_element name = name"
      unfolding last_element_def t by simp
    with s ne show ?thesis
      by (simp add: filepath_Base_def)
  qed
qed

lemma Executor_Command_store: "Executor_Command (Executor_store executor c) = c"
  by (cases executor) (simp_all add: UniversalExecutor_Command_def)

text \<open>
  C9. For every host, registry, name and argument list, the \<open>cmd\<close> of the executor that
  \<^verbatim>\<open>Command(name, arg...)\<close> returns has \<^verbatim>\<open>Args\<close> equal to the name followed by the
  arguments. When the name has no directory part (\<^verbatim>\<open>filepath.Base(name) == name\<close>),
  \<^verbatim>\<open>Path\<close> is what the lookup of the name in the search path found, if it found
  something; in every other case \<^verbatim>\<open>Path\<close> is the name as given. The names that pass
  the test are the non-empty names without a separator, and \<^verbatim>\<open>/\<close> itself.
\<close>

theorem Command_Args_Path:
  "Args (Executor_Command (fst (Command os executors name arg w))) = name # arg \<and>
   Path (Executor_Command (fst (Command os executors name arg w))) =
     (if filepath_Base name = name
      then (case host_LookPath os (snd (Default executors w)) name of
              Inr lp \<Rightarrow> lp
            | Inl err \<Rightarrow> name)
      else name) \<and>
   (filepath_Base name = name \<longleftrightarrow>
      name \<noteq> [] \<and> (name = ''/'' \<or> CHR ''/'' \<notin> set name))"
proof -
  have "Args (Executor_Command (fst (Command os executors name arg w))) = name # arg"
    by (simp add: Command_def Let_def Executor_Command_store split: prod.splits sum.splits)
  moreover have "Path (Executor_Command (fst (Command os executors name arg w))) =
     (if filepath_Base name = name
      then (case host_LookPath os (snd (Default executors w)) name of
              Inr lp \<Rightarrow> lp
            | Inl err \<Rightarrow> name)
      else name)"
    by (simp add: Command_def Let_def Executor_Command_store split: prod.splits sum.splits)
  ultimately show ?thesis
    using filepath_Base_fixed [of name] by blast
qed

theorem Command_Args_Path_witness:
  "Args (Executor_Command (fst (Command unix_host
      ([] :: (int list, nat, string) ExecutorFactory list) ''sleep'' [''10''] []))) =
     [''sleep'', ''10''] \<and>
   Path (Executor_Command (fst (Command unix_host
      ([] :: (int list, nat, string) ExecutorFactory list) ''sleep'' [''10''] []))) =
     ''/bin/sleep'' \<and>
   Path (Executor_Command (fst (Command unix_host
      ([] :: (int list, nat, string) ExecutorFactory list) ''./sleep'' [''10''] []))) =
     ''./sleep''"
proof -
  have a: "filepath_Base ''sleep'' = ''sleep''"
    by (simp add: filepath_Base_fixed)
  have b: "filepath_Base ''./sleep'' \<noteq> ''./sleep''"
    by (simp add: filepath_Base_fixed)
  have c: "host_LookPath unix_host w ''sleep'' = Inr ''/bin/sleep''" for w
    by (simp add: unix_host_def)
  from a c show ?thesis
    using Command_Args_Path [of unix_host "[] :: (int list, nat, string) ExecutorFactory list"
        "''sleep''" "[''10'']" "[]"]
      Command_Args_Path [of unix_host "[] :: (int list, nat, string) ExecutorFactory list"
        "''./sleep''" "[''10'']" "[]"] b
    by simp
qed

text \<open>
  \<^verbatim>\<open>Start\<close> on an executor that has no process and no recorded lookup error goes to
  the host: it returns the error of \<^verbatim>\<open>os.StartProcess\<close>, or stores the new process.
\<close>

lemma Start_spawns:
  "lookPathErr e = None \<Longrightarrow> Process e = None \<Longrightarrow> Args e \<noteq> [] \<Longrightarrow>
   UniversalExecutor_Start os e w =
     (case host_StartProcess os w (Path e) (Args e) of
        (Inl err, w') \<Rightarrow> (Some err, e, w')
      | (Inr pid, w') \<Rightarrow> (None, e\<lparr>Process := Some \<lparr>Pid = pid\<rparr>\<rparr>, w'))"
  by (simp add: UniversalExecutor_Start_def Cmd_Start_def Cmd_argv_def)

text \<open>
  C10, as amended. When the name has no directory part and the lookup in the search path
  fails, \<^verbatim>\<open>Command\<close> returns what it returns for a name it does not look up: the
  default executor with \<^verbatim>\<open>Path\<close> set to the name as given and \<^verbatim>\<open>Args\<close> to the
  name and the arguments. The error of the lookup is in no part of the result, and
  \<^verbatim>\<open>Start\<close> never reports it: on a \<^verbatim>\<open>UniversalExecutor\<close> without process,
  \<^verbatim>\<open>Start\<close> hands the unresolved name to the host and returns an error exactly when
  the host fails to start it.
\<close>

theorem Command_discards_lookup_error:
  assumes "filepath_Base name = name"
    and "host_LookPath os (snd (Default executors w)) name = Inl err"
  shows "Command os executors name arg w =
           (Executor_store (fst (Default executors w))
              ((Executor_Command (fst (Default executors w)))\<lparr>Path := name, Args := name # arg\<rparr>),
            snd (Default executors w)) \<and>
         (\<forall>e0. fst (Default executors w) = UniversalExecutor e0 \<and>
               lookPathErr e0 = None \<and> Process e0 = None \<longrightarrow>
            fst (Command os executors name arg w) =
              UniversalExecutor (e0\<lparr>Path := name, Args := name # arg\<rparr>) \<and>
            UniversalExecutor_Start os (e0\<lparr>Path := name, Args := name # arg\<rparr>)
                (snd (Default executors w)) =
              (case host_StartProcess os (snd (Default executors w)) name (name # arg) of
                 (Inl err', w') \<Rightarrow> (Some err', e0\<lparr>Path := name, Args := name # arg\<rparr>, w')
               | (Inr pid, w') \<Rightarrow>
                   (None, e0\<lparr>Path := name, Args := name # arg,
                               Process := Some \<lparr>Pid = pid\<rparr>\<rparr>, w')))"
proof (intro conjI allI impI)
  show "Command os executors name arg w =
           (Executor_store (fst (Default executors w))
              ((Executor_Command (fst (Default executors w)))\<lparr>Path := name, Args := name # arg\<rparr>),
            snd (Default executors w))"
    using assms by (auto simp: Command_def Let_def split: prod.splits)
next
  fix e0
  assume "fst (Default executors w) = UniversalExecutor e0 \<and>
    lookPathErr e0 = None \<and> Process e0 = None"
  with assms show "fst (Command os executors name arg w) =
      UniversalExecutor (e0\<lparr>Path := name, Args := name # arg\<rparr>)"
    by (auto simp: Command_def Let_def UniversalExecutor_Command_def split: prod.splits)
next
  fix e0
  assume "fst (Default executors w) = UniversalExecutor e0 \<and>
    lookPathErr e0 = None \<and> Process e0 = None"
  then show "UniversalExecutor_Start os (e0\<lparr>Path := name, Args := name # arg\<rparr>)
                (snd (Default executors w)) =
              (case host_StartProcess os (snd (Default executors w)) name (name # arg) of
                 (Inl err', w') \<Rightarrow> (Some err', e0\<lparr>Path := name, Args := name # arg\<rparr>, w')
               | (Inr pid, w') \<Rightarrow>
                   (None, e0\<lparr>Path := name, Args := name # arg,
                               Process := Some \<lparr>Pid = pid\<rparr>\<rparr>, w'))"
    using Start_spawns [of "e0\<lparr>Path := name, Args := name # arg\<rparr>" os
        "snd (Default executors w)"]
    by simp
qed

theorem Command_discards_lookup_error_witness:
  "filepath_Base ''nomad-task'' = ''nomad-task'' \<and>
   host_LookPath unix_host [] ''nomad-task'' =
     Inl (HostError ''executable file not found in $PATH'') \<and>
   Command unix_host ([] :: (int list, nat, string) ExecutorFactory list)
     ''nomad-task'' [''-v''] [] =
     (UniversalExecutor
        \<lparr>Path = ''nomad-task'', Args = [''nomad-task'', ''-v''], Process = None,
         lookPathErr = None, Resources = 0, RunAs = []\<rparr>, []) \<and>
   UniversalExecutor_Start unix_host
     \<lparr>Path = ''nomad-task'', Args = [''nomad-task'', ''-v''], Process = None,
      lookPathErr = None, Resources = 0 :: nat, RunAs = []\<rparr> [] =
     (Some (HostError ''no such file or directory''),
      \<lparr>Path = ''nomad-task'', Args = [''nomad-task'', ''-v''], Process = None,
       lookPathErr = None, Resources = 0, RunAs = []\<rparr>, [])"
proof -
  have a: "filepath_Base ''nomad-task'' = ''nomad-task''"
    by (simp add: filepath_Base_fixed)
  have b: "host_LookPath unix_host
      (snd (Default ([] :: (int list, nat, string) ExecutorFactory list) [])) ''nomad-task'' =
     Inl (HostError ''executable file not found in $PATH'')"
    by (simp add: unix_host_def)
  have d: "host_StartProcess unix_host [] ''nomad-task'' [''nomad-task'', ''-v''] =
     (Inl (HostError ''no such file or directory''), [])"
    by (simp add: unix_host_def)
  from a b d Command_discards_lookup_error [OF a b, of "[''-v'']"] show ?thesis
    by (simp add: UniversalExecutor_zero_def UniversalExecutor_Command_def)
qed

text \<open>
  C10, as stated, ends with the failure coming up at \<^verbatim>\<open>Start\<close>. It need not: on
  \<open>cwd_host\<close> the lookup of \<^verbatim>\<open>run-task\<close> fails, \<^verbatim>\<open>Command\<close> drops the error, and
  \<^verbatim>\<open>Start\<close> on the executor returned starts the process and returns nil.
\<close>

theorem Start_of_unresolved_name_succeeds:
  "filepath_Base ''run-task'' = ''run-task'' \<and>
   host_LookPath cwd_host [] ''run-task'' =
     Inl (HostError ''executable file not found in $PATH'') \<and>
   Command cwd_host ([] :: (int list, nat, string) ExecutorFactory list) ''run-task'' [] [] =
     (UniversalExecutor
        \<lparr>Path = ''run-task'', Args = [''run-task''], Process = None,
         lookPathErr = None, Resources = 0, RunAs = []\<rparr>, []) \<and>
   UniversalExecutor_Start cwd_host
     \<lparr>Path = ''run-task'', Args = [''run-task''], Process = None,
      lookPathErr = None, Resources = 0 :: nat, RunAs = []\<rparr> [] =
     (None,
      \<lparr>Path = ''run-task'', Args = [''run-task''], Process = Some \<lparr>Pid = 100\<rparr>,
       lookPathErr = None, Resources = 0, RunAs = []\<rparr>, [100])"
proof -
  have a: "filepath_Base ''run-task'' = ''run-task''"
    by (simp add: filepath_Base_fixed)
  have b: "host_LookPath cwd_host w ''run-task'' =
     Inl (HostError ''executable file not found in $PATH'')" for w
    by (simp add: cwd_host_def unix_host_def)
  have c: "Command cwd_host ([] :: (int list, nat, string) ExecutorFactory list)
      ''run-task'' [] [] =
     (UniversalExecutor
        \<lparr>Path = ''run-task'', Args = [''run-task''], Process = None,
         lookPathErr = None, Resources = 0, RunAs = []\<rparr>, [])"
    by (simp add: Command_def a b UniversalExecutor_zero_def UniversalExecutor_Command_def)
  have d: "UniversalExecutor_Start cwd_host
     \<lparr>Path = ''run-task'', Args = [''run-task''], Process = None,
      lookPathErr = None, Resources = 0 :: nat, RunAs = []\<rparr> [] =
     (None,
      \<lparr>Path = ''run-task'', Args = [''run-task''], Process = Some \<lparr>Pid = 100\<rparr>,
       lookPathErr = None, Resources = 0, RunAs = []\<rparr>, [100])"
    by (simp add: UniversalExecutor_Start_def Cmd_Start_def Cmd_argv_def cwd_host_def
        unix_host_def)
  from a b c d show ?thesis
    by simp
qed

end
